theory Spec2Isabelle
  imports Complex_Main "HOL-Library.Sublist"
begin

section \<open>JavaScript values used by the views\<close>

text \<open>
  Strings are lists of code units. A \<^typ>\<open>char\<close> stands for a code unit below 256
  (the Latin-1 range); the case mapping and the white space of that range are written
  out, so \<open>toLowerCase\<close> and \<open>trim\<close> agree with JavaScript on every such string.
\<close>

definition toLowerChar :: "char \<Rightarrow> char" where
  "toLowerChar c =
     (let n = (of_char c :: nat)
      in if (65 \<le> n \<and> n \<le> 90) \<or> (192 \<le> n \<and> n \<le> 222 \<and> n \<noteq> 215)
         then char_of (n + 32) else c)"

definition toLowerCase :: "string \<Rightarrow> string" where
  "toLowerCase s = map toLowerChar s"

text \<open>\<open>s.includes(q)\<close>: \<open>q\<close> occurs in \<open>s\<close> at some position.\<close>

fun str_includes :: "string \<Rightarrow> string \<Rightarrow> bool" where
  "str_includes [] q = (q = [])"
| "str_includes (c # cs) q = (prefix q (c # cs) \<or> str_includes cs q)"

definition isWhiteSpace :: "char \<Rightarrow> bool" where
  "isWhiteSpace c = ((of_char c :: nat) \<in> {9, 10, 11, 12, 13, 32, 160})"

definition trim :: "string \<Rightarrow> string" where
  "trim s = rev (dropWhile isWhiteSpace (rev (dropWhile isWhiteSpace s)))"

text \<open>A string is truthy when it is not empty; \<open>undefined\<close> is \<open>None\<close>.\<close>

definition truthy_string :: "string \<Rightarrow> bool" where
  "truthy_string s = (s \<noteq> [])"

text \<open>
  Numbers: only their sign and whether they are \<open>NaN\<close> matter to the code, so a finite
  number is the real it denotes.
\<close>

datatype js_number = Num real | NaN | PosInfinity | NegInfinity

fun truthy_number :: "js_number \<Rightarrow> bool" where
  "truthy_number (Num r) = (r \<noteq> 0)"
| "truthy_number NaN = False"
| "truthy_number PosInfinity = True"
| "truthy_number NegInfinity = True"

fun isNaN :: "js_number \<Rightarrow> bool" where
  "isNaN NaN = True"
| "isNaN _ = False"

text \<open>\<open>n > 0\<close> and \<open>n <= 0\<close>; both are false on \<open>NaN\<close>.\<close>

fun js_gt_zero :: "js_number \<Rightarrow> bool" where
  "js_gt_zero (Num r) = (0 < r)"
| "js_gt_zero PosInfinity = True"
| "js_gt_zero _ = False"

fun js_le_zero :: "js_number \<Rightarrow> bool" where
  "js_le_zero (Num r) = (r \<le> 0)"
| "js_le_zero NegInfinity = True"
| "js_le_zero _ = False"

section \<open>The API client (src/lib/api.ts)\<close>

record product =
  product_id :: "string option"
  product_name :: string
  product_price :: js_number
  product_category :: string

record shop_data =
  sd_shopName :: string
  sd_location :: string
  sd_products :: "product list"

record partial_shop =
  ps_shopName :: "string option"
  ps_location :: "string option"
  ps_products :: "product list option"

record partial_product =
  pp_name :: "string option"
  pp_price :: "js_number option"
  pp_category :: "string option"

record signup_data =
  su_name :: string
  su_email :: string
  su_password :: string
  su_userType :: string

record login_data =
  li_email :: string
  li_password :: string

record user =
  user_id :: string
  user_name :: string
  user_email :: string
  userType :: string

record auth_response =
  token :: string
  auth_user :: user

record review =
  review_id :: "string option"
  shopId :: string
  userId :: string
  userName :: string
  review_rating :: js_number
  comment :: string
  createdAt :: "string option"

record shop =
  shop_id :: string
  shopName :: string
  location :: string
  products :: "product list"
  owner :: string
  averageRating :: "js_number option"
  reviewCount :: "js_number option"

datatype http_verb = GET | POST | PUT | DELETE

datatype param = PString string | PNumber js_number

datatype payload =
    NoBody
  | SignupBody signup_data
  | LoginBody login_data
  | ShopBody shop_data
  | ShopPatch partial_shop
  | ProductBody product
  | ProductPatch partial_product
  | ReviewBody review

record request =
  verb :: http_verb
  url :: string
  query_params :: "string \<rightharpoonup> param"
  headers :: "string \<rightharpoonup> string"
  payload :: payload

text \<open>\<open>axios.create\<close>: every request starts from the default headers.\<close>

definition api_config :: "http_verb \<Rightarrow> string \<Rightarrow> (string \<rightharpoonup> param) \<Rightarrow> payload \<Rightarrow> request" where
  "api_config v u ps b =
     \<lparr>verb = v, url = u, query_params = ps,
      headers = [''Content-Type'' \<mapsto> ''application/json''], payload = b\<rparr>"

text \<open>
  The request interceptor. The first argument is the browser's local storage;
  \<open>getItem\<close> of a missing key is \<open>null\<close>, here \<open>None\<close>.
\<close>

definition interceptor :: "(string \<rightharpoonup> string) \<Rightarrow> request \<Rightarrow> request" where
  "interceptor localStorage config =
     (case localStorage ''token'' of
        None \<Rightarrow> config
      | Some tok \<Rightarrow>
          if truthy_string tok
          then config\<lparr>headers := (headers config)(''x-auth-token'' \<mapsto> tok)\<rparr>
          else config)"

text \<open>
  The query parameters of \<open>shopAPI.getShops(location?, latitude?, longitude?)\<close>.
  A missing argument is \<open>None\<close>; both \<open>if\<close>s test truthiness.
\<close>

definition getShops_params ::
  "string option \<Rightarrow> js_number option \<Rightarrow> js_number option \<Rightarrow> (string \<rightharpoonup> param)" where
  "getShops_params loc latitude longitude =
     (let params0 = Map.empty;
          params1 = (case loc of
                       Some l \<Rightarrow> if truthy_string l then params0(''location'' \<mapsto> PString l) else params0
                     | None \<Rightarrow> params0)
      in case (latitude, longitude) of
           (Some la, Some lo) \<Rightarrow>
             if truthy_number la \<and> truthy_number lo
             then params1(''lat'' \<mapsto> PNumber la, ''lng'' \<mapsto> PNumber lo)
             else params1
         | _ \<Rightarrow> params1)"

text \<open>One constructor for each function of \<open>authAPI\<close>, \<open>shopAPI\<close> and \<open>reviewAPI\<close>.\<close>

datatype api_call =
    Signup signup_data
  | Login login_data
  | GetShops "string option" "js_number option" "js_number option"
  | CreateShop shop_data
  | UpdateShop string partial_shop
  | DeleteShop string
  | GetMyShop
  | AddProduct string product
  | UpdateProduct string string partial_product
  | DeleteProduct string string
  | GetReviews string
  | AddReview review
  | DeleteReview string

text \<open>The one request each of them hands to axios.\<close>

fun request_of :: "api_call \<Rightarrow> request" where
  "request_of (Signup d) = api_config POST ''/auth/signup'' Map.empty (SignupBody d)"
| "request_of (Login d) = api_config POST ''/auth/login'' Map.empty (LoginBody d)"
| "request_of (GetShops loc la lo) = api_config GET ''/shop'' (getShops_params loc la lo) NoBody"
| "request_of (CreateShop d) = api_config POST ''/shop'' Map.empty (ShopBody d)"
| "request_of (UpdateShop sid d) = api_config PUT (''/shop/'' @ sid) Map.empty (ShopPatch d)"
| "request_of (DeleteShop sid) = api_config DELETE (''/shop/'' @ sid) Map.empty NoBody"
| "request_of GetMyShop = api_config GET ''/shop/my-shop'' Map.empty NoBody"
| "request_of (AddProduct sid p) =
     api_config POST (''/shop/'' @ sid @ ''/products'') Map.empty (ProductBody p)"
| "request_of (UpdateProduct sid pid p) =
     api_config PUT (''/shop/'' @ sid @ ''/products/'' @ pid) Map.empty (ProductPatch p)"
| "request_of (DeleteProduct sid pid) =
     api_config DELETE (''/shop/'' @ sid @ ''/products/'' @ pid) Map.empty NoBody"
| "request_of (GetReviews sid) = api_config GET (''/reviews/'' @ sid) Map.empty NoBody"
| "request_of (AddReview r) = api_config POST ''/reviews'' Map.empty (ReviewBody r)"
| "request_of (DeleteReview rid) = api_config DELETE (''/reviews/'' @ rid) Map.empty NoBody"

text \<open>What leaves the client: the request after the interceptor has run.\<close>

definition send :: "(string \<rightharpoonup> string) \<Rightarrow> api_call \<Rightarrow> request" where
  "send localStorage c = interceptor localStorage (request_of c)"

text \<open>
  A rejected promise. \<open>err_status\<close> is \<open>error.response?.status\<close> and \<open>err_message\<close> is
  \<open>error.response?.data?.message\<close>; an exception that is not an HTTP error has neither.
\<close>

record api_error =
  err_status :: "nat option"
  err_message :: "string option"

text \<open>\<open>error.response?.data?.message || fallback\<close>\<close>

definition message_or :: "api_error \<Rightarrow> string \<Rightarrow> string" where
  "message_or e fallback =
     (case err_message e of
        Some m \<Rightarrow> if truthy_string m then m else fallback
      | None \<Rightarrow> fallback)"

text \<open>
  \<open>authAPI.signup\<close> and \<open>authAPI.login\<close> after the POST: the token of the response is
  decoded. \<open>jwtDecode\<close> is the library function; \<open>None\<close> is its exception.
\<close>

definition decode_response ::
  "(string \<Rightarrow> user option) \<Rightarrow> api_error + string \<Rightarrow> api_error + auth_response" where
  "decode_response jwtDecode resp =
     (case resp of
        Inl e \<Rightarrow> Inl e
      | Inr tok \<Rightarrow>
          (case jwtDecode tok of
             None \<Rightarrow> Inl \<lparr>err_status = None, err_message = None\<rparr>
           | Some u \<Rightarrow> Inr \<lparr>token = tok, auth_user = u\<rparr>))"

section \<open>What a handler does besides changing its component's state\<close>

text \<open>A schema issue: the path of the field and the message.\<close>

datatype path_seg = Key string | Index nat

type_synonym issue = "path_seg list \<times> string"

datatype event =
    Api api_call
  | AuthLogin string user
  | ToastSuccess string
  | ToastError string
  | Navigate string
  | AuthLogout
  | FormErrors "issue list"
  | FormReset

fun http_calls :: "event list \<Rightarrow> api_call list" where
  "http_calls [] = []"
| "http_calls (Api c # evs) = c # http_calls evs"
| "http_calls (_ # evs) = http_calls evs"

fun navigations :: "event list \<Rightarrow> string list" where
  "navigations [] = []"
| "navigations (Navigate r # evs) = r # navigations evs"
| "navigations (_ # evs) = navigations evs"

fun toast_errors :: "event list \<Rightarrow> string list" where
  "toast_errors [] = []"
| "toast_errors (ToastError m # evs) = m # toast_errors evs"
| "toast_errors (_ # evs) = toast_errors evs"

text \<open>The session the views read from the auth context.\<close>

record auth =
  isAuthenticated :: bool
  current_user :: "user option"

text \<open>
  The dashboard of a user, \<open>user.userType === 'seller' ? '/seller' : '/buyer'\<close>, as
  Signup, Index and Home write it.
\<close>

definition dashboard_route :: "user \<Rightarrow> string" where
  "dashboard_route u = (if userType u = ''seller'' then ''/seller'' else ''/buyer'')"

text \<open>
  \<open>handleSubmit(onSubmit)\<close> of the form library with a schema resolver: the schema
  runs first, and \<open>onSubmit\<close> receives the parsed data only when there is no issue;
  otherwise the issues become the form's errors.
\<close>

definition handleSubmit ::
  "('i \<Rightarrow> issue list + 'o) \<Rightarrow> ('o \<Rightarrow> 's \<Rightarrow> event list \<times> 's) \<Rightarrow> 'i \<Rightarrow> 's \<Rightarrow> event list \<times> 's" where
  "handleSubmit resolver onSubmit input st =
     (case resolver input of
        Inl issues \<Rightarrow> ([FormErrors issues], st)
      | Inr data \<Rightarrow> onSubmit data st)"

section \<open>Signup view\<close>

record signup_form =
  sf_name :: string
  sf_email :: string
  sf_password :: string
  sf_userType :: "string option"

text \<open>
  \<open>signupSchema\<close>. The schema library's test of an email address is the parameter
  \<open>isEmail\<close>. The message of a wrong enum value is the library's own.
\<close>

definition signupSchema_issues :: "(string \<Rightarrow> bool) \<Rightarrow> signup_form \<Rightarrow> issue list" where
  "signupSchema_issues isEmail f =
     (if length (sf_name f) < 2
      then [([Key ''name''], ''Name must be at least 2 characters'')] else []) @
     (if \<not> isEmail (sf_email f)
      then [([Key ''email''], ''Invalid email address'')] else []) @
     (if length (sf_password f) < 6
      then [([Key ''password''], ''Password must be at least 6 characters'')] else []) @
     (case sf_userType f of
        None \<Rightarrow> [([Key ''userType''], ''Please select a role'')]
      | Some t \<Rightarrow>
          if t = ''buyer'' \<or> t = ''seller'' then []
          else [([Key ''userType''], ''Invalid enum value'')])"

definition signupSchema :: "(string \<Rightarrow> bool) \<Rightarrow> signup_form \<Rightarrow> issue list + signup_data" where
  "signupSchema isEmail f =
     (case (signupSchema_issues isEmail f, sf_userType f) of
        ([], Some t) \<Rightarrow>
          Inr \<lparr>su_name = sf_name f, su_email = sf_email f,
               su_password = sf_password f, su_userType = t\<rparr>
      | (issues, _) \<Rightarrow> Inl issues)"

record signup_view =
  signup_isLoading :: bool

text \<open>
  \<open>onSubmit\<close> of the Signup view. \<open>resp\<close> is what the backend answers to the POST: an
  error, or the token.
\<close>

definition signup_onSubmit ::
  "(string \<Rightarrow> user option) \<Rightarrow> api_error + string \<Rightarrow> signup_data \<Rightarrow> signup_view
     \<Rightarrow> event list \<times> signup_view" where
  "signup_onSubmit jwtDecode resp data st =
     (case decode_response jwtDecode resp of
        Inr response \<Rightarrow>
          ([Api (Signup data),
            AuthLogin (token response) (auth_user response),
            ToastSuccess ''Account created successfully!'',
            Navigate (if userType (auth_user response) = ''seller'' then ''/seller'' else ''/buyer'')],
           st\<lparr>signup_isLoading := False\<rparr>)
      | Inl e \<Rightarrow>
          ([Api (Signup data), ToastError (message_or e ''Signup failed. Please try again.'')],
           st\<lparr>signup_isLoading := False\<rparr>))"

definition signup_submit ::
  "(string \<Rightarrow> bool) \<Rightarrow> (string \<Rightarrow> user option) \<Rightarrow> api_error + string \<Rightarrow> signup_form
     \<Rightarrow> signup_view \<Rightarrow> event list \<times> signup_view" where
  "signup_submit isEmail jwtDecode resp =
     handleSubmit (signupSchema isEmail) (signup_onSubmit jwtDecode resp)"

section \<open>Login view\<close>

text \<open>
  Modelled from the spec: the Login view's submit handler is not among the sources.
  The spec says of the auth views: collect credentials, validate client-side, call an
  auth endpoint, store a returned token/session, redirect by role. The call is
  \<open>authAPI.login\<close> of the API client, which is among the sources.
\<close>

definition login_onSubmit ::
  "(string \<Rightarrow> user option) \<Rightarrow> api_error + string \<Rightarrow> login_data \<Rightarrow> event list" where
  "login_onSubmit jwtDecode resp data =
     (case decode_response jwtDecode resp of
        Inr response \<Rightarrow>
          [Api (Login data),
           AuthLogin (token response) (auth_user response),
           Navigate (dashboard_route (auth_user response))]
      | Inl e \<Rightarrow> [Api (Login data)])"

section \<open>Index view\<close>

text \<open>The effect that redirects a visitor who is already logged in.\<close>

definition index_effect :: "auth \<Rightarrow> event list" where
  "index_effect a =
     (case current_user a of
        Some u \<Rightarrow>
          if isAuthenticated a
          then [Navigate (if userType u = ''seller'' then ''/seller'' else ''/buyer'')]
          else []
      | None \<Rightarrow> [])"

section \<open>SellerDashboard view: the shop form\<close>

text \<open>
  The raw value of the price field has the type \<open>'r\<close>; \<open>z.coerce.number()\<close> applies
  JavaScript's \<open>Number\<close> to it, the parameter \<open>Number\<close> below.
\<close>

record 'r product_form =
  pf_name :: string
  pf_price :: 'r
  pf_category :: string

record 'r shop_form =
  f_shopName :: string
  f_location :: string
  f_products :: "'r product_form list"

definition productSchema_issues ::
  "('r \<Rightarrow> js_number) \<Rightarrow> path_seg list \<Rightarrow> 'r product_form \<Rightarrow> issue list" where
  "productSchema_issues Number path p =
     (if length (pf_name p) < 1
      then [(path @ [Key ''name''], ''Product name is required'')] else []) @
     (let n = Number (pf_price p)
      in if isNaN n then [(path @ [Key ''price''], ''Expected number, received nan'')]
         else if js_le_zero n then [(path @ [Key ''price''], ''Price must be positive'')]
         else []) @
     (if length (pf_category p) < 1
      then [(path @ [Key ''category''], ''Category is required'')] else [])"

definition productSchema_output :: "('r \<Rightarrow> js_number) \<Rightarrow> 'r product_form \<Rightarrow> product" where
  "productSchema_output Number p =
     \<lparr>product_id = None, product_name = pf_name p,
      product_price = Number (pf_price p), product_category = pf_category p\<rparr>"

definition shopSchema_issues :: "('r \<Rightarrow> js_number) \<Rightarrow> 'r shop_form \<Rightarrow> issue list" where
  "shopSchema_issues Number f =
     (if length (f_shopName f) < 2
      then [([Key ''shopName''], ''Shop name must be at least 2 characters'')] else []) @
     (if length (f_location f) < 2
      then [([Key ''location''], ''Location is required'')] else []) @
     (if length (f_products f) < 1
      then [([Key ''products''], ''At least one product is required'')] else []) @
     concat (map (\<lambda>(i, p). productSchema_issues Number [Key ''products'', Index i] p)
                 (enumerate 0 (f_products f)))"

definition shopSchema :: "('r \<Rightarrow> js_number) \<Rightarrow> 'r shop_form \<Rightarrow> issue list + shop_data" where
  "shopSchema Number f =
     (case shopSchema_issues Number f of
        [] \<Rightarrow>
          Inr \<lparr>sd_shopName = f_shopName f, sd_location = f_location f,
               sd_products = map (productSchema_output Number) (f_products f)\<rparr>
      | issues \<Rightarrow> Inl issues)"

record seller_view =
  seller_isLoading :: bool

definition seller_onSubmit ::
  "api_error + unit \<Rightarrow> shop_data \<Rightarrow> seller_view \<Rightarrow> event list \<times> seller_view" where
  "seller_onSubmit resp data st =
     (case resp of
        Inr _ \<Rightarrow>
          ([Api (CreateShop data), ToastSuccess ''Shop created successfully!'', FormReset],
           st\<lparr>seller_isLoading := False\<rparr>)
      | Inl e \<Rightarrow>
          ([Api (CreateShop data), ToastError (message_or e ''Failed to create shop'')],
           st\<lparr>seller_isLoading := False\<rparr>))"

definition seller_submit ::
  "('r \<Rightarrow> js_number) \<Rightarrow> api_error + unit \<Rightarrow> 'r shop_form \<Rightarrow> seller_view
     \<Rightarrow> event list \<times> seller_view" where
  "seller_submit Number resp = handleSubmit (shopSchema Number) (seller_onSubmit resp)"

section \<open>Home and BuyerDashboard views\<close>

text \<open>
  \<open>filteredShops\<close>: the same expression in Home and in BuyerDashboard, over the
  view's \<open>shops\<close> and \<open>searchQuery\<close>.
\<close>

definition filteredShops :: "shop list \<Rightarrow> string \<Rightarrow> shop list" where
  "filteredShops shop_list search =
     filter (\<lambda>s.
        let query = toLowerCase search
        in str_includes (toLowerCase (shopName s)) query \<or>
           str_includes (toLowerCase (location s)) query \<or>
           list_ex (\<lambda>p. str_includes (toLowerCase (product_name p)) query \<or>
                         str_includes (toLowerCase (product_category p)) query)
                   (products s))
       shop_list"

record home_state =
  shops :: "shop list"
  isLoading :: bool
  searchQuery :: string
  locationQuery :: string
  selectedShop :: "shop option"
  reviews :: "review list"
  reviewText :: string
  rating :: js_number
  isSubmittingReview :: bool

text \<open>The state after the \<open>useState\<close> calls of Home.\<close>

definition home_initial :: home_state where
  "home_initial =
     \<lparr>shops = [], isLoading = True, searchQuery = [], locationQuery = [],
      selectedShop = None, reviews = [], reviewText = [], rating = Num 5,
      isSubmittingReview = False\<rparr>"

definition fetchShops :: "api_error + shop list \<Rightarrow> home_state \<Rightarrow> event list \<times> home_state" where
  "fetchShops resp st =
     (case resp of
        Inr data \<Rightarrow>
          ([Api (GetShops (Some (locationQuery st)) None None)],
           st\<lparr>shops := data, isLoading := False\<rparr>)
      | Inl e \<Rightarrow>
          ([Api (GetShops (Some (locationQuery st)) None None), ToastError ''Failed to fetch shops''],
           st\<lparr>isLoading := False\<rparr>))"

definition fetchNearbyShops ::
  "js_number \<Rightarrow> js_number \<Rightarrow> api_error + shop list \<Rightarrow> home_state \<Rightarrow> event list \<times> home_state" where
  "fetchNearbyShops lat lng resp st =
     (case resp of
        Inr data \<Rightarrow>
          ([Api (GetShops None (Some lat) (Some lng))],
           st\<lparr>shops := data, isLoading := False\<rparr>)
      | Inl e \<Rightarrow>
          ([Api (GetShops None (Some lat) (Some lng)), ToastError ''Failed to fetch nearby shops''],
           st\<lparr>isLoading := False\<rparr>))"

text \<open>
  \<open>handleUseMyLocation\<close>: \<open>geo\<close> is \<open>None\<close> when the browser has no geolocation,
  \<open>Some None\<close> when the position is refused, and the coordinates otherwise.
\<close>

definition handleUseMyLocation ::
  "(js_number \<times> js_number) option option \<Rightarrow> api_error + shop list \<Rightarrow> home_state
     \<Rightarrow> event list \<times> home_state" where
  "handleUseMyLocation geo resp st =
     (case geo of
        None \<Rightarrow> ([ToastError ''Geolocation is not supported by your browser''], st)
      | Some None \<Rightarrow> ([ToastError ''Unable to access your location''], st)
      | Some (Some (lat, lng)) \<Rightarrow>
          (let (evs, st') = fetchNearbyShops lat lng resp st
           in (ToastSuccess ''Location detected! Showing nearby shops'' # evs, st')))"

definition handleShopClick ::
  "shop \<Rightarrow> api_error + review list \<Rightarrow> home_state \<Rightarrow> event list \<times> home_state" where
  "handleShopClick s resp st =
     (case resp of
        Inr reviewData \<Rightarrow>
          ([Api (GetReviews (shop_id s))], st\<lparr>selectedShop := Some s, reviews := reviewData\<rparr>)
      | Inl e \<Rightarrow>
          ([Api (GetReviews (shop_id s))], st\<lparr>selectedShop := Some s, reviews := []\<rparr>))"

text \<open>
  \<open>handleSubmitReview\<close>. \<open>addResp\<close> answers the POST of the review and \<open>getResp\<close> the
  GET that refreshes the reviews.
\<close>

definition handleSubmitReview ::
  "auth \<Rightarrow> api_error + unit \<Rightarrow> api_error + review list \<Rightarrow> home_state
     \<Rightarrow> event list \<times> home_state" where
  "handleSubmitReview a addResp getResp st =
     (if \<not> isAuthenticated a
      then ([ToastError ''Please login to submit a review'', Navigate ''/login''], st)
      else
        (case (selectedShop st, current_user a) of
           (Some s, Some u) \<Rightarrow>
             if length (trim (reviewText st)) < 10
             then ([ToastError ''Review must be at least 10 characters long''], st)
             else
               (let post = Api (AddReview
                      \<lparr>review_id = None, shopId = shop_id s, userId = user_id u,
                       userName = user_name u, review_rating = rating st,
                       comment = trim (reviewText st), createdAt = None\<rparr>)
                in case addResp of
                     Inl e \<Rightarrow>
                       ([post, ToastError (message_or e ''Failed to submit review'')],
                        st\<lparr>isSubmittingReview := False\<rparr>)
                   | Inr _ \<Rightarrow>
                       (case getResp of
                          Inl e \<Rightarrow>
                            ([post, ToastSuccess ''Review submitted successfully!'',
                              Api (GetReviews (shop_id s)),
                              ToastError (message_or e ''Failed to submit review'')],
                             st\<lparr>reviewText := [], rating := Num 5, isSubmittingReview := False\<rparr>)
                        | Inr reviewData \<Rightarrow>
                            ([post, ToastSuccess ''Review submitted successfully!'',
                              Api (GetReviews (shop_id s))],
                             st\<lparr>reviewText := [], rating := Num 5, reviews := reviewData,
                                isSubmittingReview := False\<rparr>)))
         | _ \<Rightarrow> ([], st)))"

text \<open>
  Where \<open>handleSubmitReview\<close> is called from: the Submit button of the review form. The
  form is rendered under \<open>isAuthenticated && user?.userType === 'buyer'\<close>, inside the
  dialog of a shop; the dialog opens by the click on the shop's card, which runs
  \<open>handleShopClick\<close> and so selects the shop, and nothing clears the selection.
\<close>

definition review_form_shown :: "auth \<Rightarrow> home_state \<Rightarrow> bool" where
  "review_form_shown a st =
     (isAuthenticated a \<and>
      (case current_user a of Some u \<Rightarrow> userType u = ''buyer'' | None \<Rightarrow> False) \<and>
      selectedShop st \<noteq> None)"

definition handleLogout :: "event list" where
  "handleLogout = [AuthLogout, Navigate ''/login'', ToastSuccess ''Logged out successfully'']"

text \<open>The star selector: one star for each element of this list.\<close>

definition stars :: "js_number list" where
  "stars = [Num 1, Num 2, Num 3, Num 4, Num 5]"

text \<open>
  What a user can do in Home. \<open>ClickStar i\<close> is a click on the star at position \<open>i\<close> of
  the selector; the other constructors carry what the browser and the backend answer.
\<close>

datatype home_action =
    TypeSearch string
  | TypeLocation string "api_error + shop list"
  | UseMyLocation "(js_number \<times> js_number) option option" "api_error + shop list"
  | ShopClick shop "api_error + review list"
  | ClickStar nat
  | TypeReview string
  | SubmitReview auth "api_error + unit" "api_error + review list"
  | Logout

fun home_step :: "home_action \<Rightarrow> home_state \<Rightarrow> event list \<times> home_state" where
  "home_step (TypeSearch q) st = ([], st\<lparr>searchQuery := q\<rparr>)"
| "home_step (TypeLocation l resp) st = fetchShops resp (st\<lparr>locationQuery := l\<rparr>)"
| "home_step (UseMyLocation geo resp) st = handleUseMyLocation geo resp st"
| "home_step (ShopClick s resp) st = handleShopClick s resp st"
| "home_step (ClickStar i) st =
     (if i < length stars then ([], st\<lparr>rating := stars ! i\<rparr>) else ([], st))"
| "home_step (TypeReview t) st = ([], st\<lparr>reviewText := t\<rparr>)"
| "home_step (SubmitReview a addResp getResp) st = handleSubmitReview a addResp getResp st"
| "home_step Logout st = (handleLogout, st)"

fun home_run :: "home_action list \<Rightarrow> home_state \<Rightarrow> event list \<times> home_state" where
  "home_run [] st = ([], st)"
| "home_run (a # as) st =
     (let (evs, st') = home_step a st;
          (evs', st'') = home_run as st'
      in (evs @ evs', st''))"

text \<open>The reviews that were posted to the backend.\<close>

fun submitted_reviews :: "event list \<Rightarrow> review list" where
  "submitted_reviews [] = []"
| "submitted_reviews (Api (AddReview r) # evs) = r # submitted_reviews evs"
| "submitted_reviews (_ # evs) = submitted_reviews evs"

section \<open>ShopManagement view\<close>

record mgmt_state =
  sm_shop :: "shop option"
  sm_isLoading :: bool
  sm_isCreating :: bool
  sm_shopName :: string
  sm_location :: string
  sm_productName :: string
  sm_productPrice :: string
  sm_productCategory :: string
  sm_editingProduct :: "product option"
  sm_isAddingProduct :: bool

text \<open>\<open>fetchMyShop\<close>: the backend answers an error, \<open>null\<close> or the caller's shop.\<close>

definition fetchMyShop :: "api_error + shop option \<Rightarrow> mgmt_state \<Rightarrow> event list \<times> mgmt_state" where
  "fetchMyShop resp st =
     (case resp of
        Inr None \<Rightarrow> ([Api GetMyShop], st\<lparr>sm_shop := None, sm_isLoading := False\<rparr>)
      | Inr (Some data) \<Rightarrow>
          ([Api GetMyShop],
           st\<lparr>sm_shop := Some data, sm_shopName := shopName data,
              sm_location := location data, sm_isLoading := False\<rparr>)
      | Inl e \<Rightarrow>
          (if err_status e \<noteq> Some 404
           then [Api GetMyShop, ToastError ''Failed to fetch shop details'']
           else [Api GetMyShop],
           st\<lparr>sm_isLoading := False\<rparr>))"


definition handleUpdateShop ::
  "api_error + unit \<Rightarrow> api_error + shop option \<Rightarrow> mgmt_state \<Rightarrow> event list \<times> mgmt_state" where
  "handleUpdateShop resp fetchResp st =
     (case sm_shop st of
        None \<Rightarrow> ([ToastError ''Please fill in all fields''], st)
      | Some s \<Rightarrow>
          if \<not> truthy_string (trim (sm_shopName st)) \<or> \<not> truthy_string (trim (sm_location st))
          then ([ToastError ''Please fill in all fields''], st)
          else
            (let put = Api (UpdateShop (shop_id s)
                   \<lparr>ps_shopName = Some (trim (sm_shopName st)),
                    ps_location = Some (trim (sm_location st)),
                    ps_products = Some (products s)\<rparr>)
             in case resp of
                  Inl e \<Rightarrow> ([put, ToastError (message_or e ''Failed to update shop'')], st)
                | Inr _ \<Rightarrow>
                    (let (evs, st') = fetchMyShop fetchResp st
                     in ([put, ToastSuccess ''Shop updated successfully!''] @ evs, st'))))"




section \<open>The properties, in the words of the specification\<close>

text \<open>\<open>q\<close> is a substring of \<open>s\<close>.\<close>

definition is_substring :: "string \<Rightarrow> string \<Rightarrow> bool" where
  "is_substring q s = (\<exists>pre post. s = pre @ q @ post)"

text \<open>
  The lowercased query is a substring of the shop's lowercased name, of its lowercased
  location, or of the lowercased name or category of one of its products.
\<close>

definition shop_matches :: "string \<Rightarrow> shop \<Rightarrow> bool" where
  "shop_matches search s =
     (let q = toLowerCase search
      in is_substring q (toLowerCase (shopName s)) \<or>
         is_substring q (toLowerCase (location s)) \<or>
         (\<exists>p \<in> set (products s).
            is_substring q (toLowerCase (product_name p)) \<or>
            is_substring q (toLowerCase (product_category p))))"

text \<open>A positive numeric price: a number, not \<open>NaN\<close>, greater than zero.\<close>

definition positive_number :: "js_number \<Rightarrow> bool" where
  "positive_number n = (\<not> isNaN n \<and> js_gt_zero n)"

text \<open>
  The shop name has at least 2 characters, the location has at least 2 characters, the
  products list is not empty, and every product has a non-empty name, a positive numeric
  price and a non-empty category.
\<close>

definition shop_form_valid :: "('r \<Rightarrow> js_number) \<Rightarrow> 'r shop_form \<Rightarrow> bool" where
  "shop_form_valid Number f =
     (2 \<le> length (f_shopName f) \<and> 2 \<le> length (f_location f) \<and> f_products f \<noteq> [] \<and>
      (\<forall>p \<in> set (f_products f).
         pf_name p \<noteq> [] \<and> positive_number (Number (pf_price p)) \<and> pf_category p \<noteq> []))"

text \<open>
  The name has at least 2 characters, the email is a valid email address, the password
  has at least 6 characters, and the userType is buyer or seller.
\<close>

definition signup_form_valid :: "(string \<Rightarrow> bool) \<Rightarrow> signup_form \<Rightarrow> bool" where
  "signup_form_valid isEmail f =
     (2 \<le> length (sf_name f) \<and> isEmail (sf_email f) \<and> 6 \<le> length (sf_password f) \<and>
      (sf_userType f = Some ''buyer'' \<or> sf_userType f = Some ''seller''))"


section \<open>Sample data\<close>

definition shopA :: shop where
  "shopA =
     \<lparr>shop_id = ''s1'', shopName = ''Rose Garden'', location = ''Pune'',
      products = [\<lparr>product_id = Some ''p1'', product_name = ''Tulip'', product_price = Num 3,
                   product_category = ''Flowers''\<rparr>],
      owner = ''u1'', averageRating = None, reviewCount = None\<rparr>"

definition shopB :: shop where
  "shopB =
     \<lparr>shop_id = ''s2'', shopName = ''Tool Shed'', location = ''Delhi'',
      products = [], owner = ''u2'', averageRating = None, reviewCount = None\<rparr>"

definition buyerU :: user where
  "buyerU =
     \<lparr>user_id = ''u7'', user_name = ''Asha'', user_email = ''asha@example.com'',
      userType = ''buyer''\<rparr>"

definition sellerU :: user where
  "sellerU =
     \<lparr>user_id = ''u1'', user_name = ''Ravi'', user_email = ''ravi@example.com'',
      userType = ''seller''\<rparr>"

definition buyer_session :: auth where
  "buyer_session = \<lparr>isAuthenticated = True, current_user = Some buyerU\<rparr>"

definition sample_jwtDecode :: "string \<Rightarrow> user option" where
  "sample_jwtDecode tok =
     (if tok = ''tok-seller'' then Some sellerU
      else if tok = ''tok-buyer'' then Some buyerU else None)"

definition sample_signup :: signup_data where
  "sample_signup =
     \<lparr>su_name = ''Ravi'', su_email = ''ravi@example.com'', su_password = ''secret1'',
      su_userType = ''seller''\<rparr>"

definition sample_login :: login_data where
  "sample_login = \<lparr>li_email = ''ravi@example.com'', li_password = ''secret1''\<rparr>"



definition review_short :: home_state where
  "review_short = home_initial\<lparr>selectedShop := Some shopA, reviewText := ''  too bad  ''\<rparr>"

definition sample_session :: "home_action list" where
  "sample_session =
     [ShopClick shopA (Inr []), ClickStar 2, TypeReview ''  Lovely tulips!  '',
      SubmitReview buyer_session (Inr ()) (Inr [])]"

text \<open>A stand-in for \<open>Number\<close> on the raw price strings of the sample forms.\<close>

definition sample_Number :: "string \<Rightarrow> js_number" where
  "sample_Number s =
     (if s = ''12.5'' then Num 12.5 else if s = ''0'' then Num 0 else NaN)"

definition good_shop_form :: "string shop_form" where
  "good_shop_form =
     \<lparr>f_shopName = ''Bloom'', f_location = ''Pune'',
      f_products = [\<lparr>pf_name = ''Tulip'', pf_price = ''12.5'', pf_category = ''Flowers''\<rparr>]\<rparr>"

text \<open>The form as it is first shown: its default values.\<close>

definition default_shop_form :: "string shop_form" where
  "default_shop_form =
     \<lparr>f_shopName = [], f_location = [],
      f_products = [\<lparr>pf_name = [], pf_price = ''0'', pf_category = []\<rparr>]\<rparr>"

definition sample_isEmail :: "string \<Rightarrow> bool" where
  "sample_isEmail s = (s = ''asha@example.com'')"

definition good_signup_form :: signup_form where
  "good_signup_form =
     \<lparr>sf_name = ''Asha'', sf_email = ''asha@example.com'', sf_password = ''secret1'',
      sf_userType = Some ''buyer''\<rparr>"

definition bad_signup_form :: signup_form where
  "bad_signup_form =
     \<lparr>sf_name = ''A'', sf_email = ''asha'', sf_password = ''123'',
      sf_userType = Some ''buyer''\<rparr>"

section \<open>Filtering the shop list\<close>

lemma str_includes_iff: "str_includes s q \<longleftrightarrow> is_substring q s"
  unfolding is_substring_def
proof (induction s)
  case Nil
  then show ?case by auto
next
  case (Cons c cs)
  show ?case
  proof
    assume "str_includes (c # cs) q"
    then consider "prefix q (c # cs)" | "str_includes cs q" by auto
    then show "\<exists>pre post. c # cs = pre @ q @ post"
    proof cases
      case 1
      then obtain post where "c # cs = q @ post" by (auto simp: prefix_def)
      then have "c # cs = [] @ q @ post" by simp
      then show ?thesis by blast
    next
      case 2
      with Cons.IH obtain pre post where "cs = pre @ q @ post" by blast
      then have "c # cs = (c # pre) @ q @ post" by simp
      then show ?thesis by blast
    qed
  next
    assume "\<exists>pre post. c # cs = pre @ q @ post"
    then obtain pre post where e: "c # cs = pre @ q @ post" by blast
    show "str_includes (c # cs) q"
    proof (cases pre)
      case Nil
      with e have "prefix q (c # cs)" by (simp add: prefix_def)
      then show ?thesis by simp
    next
      case (Cons a pre')
      with e have "cs = pre' @ q @ post" by simp
      with Cons.IH have "str_includes cs q" by blast
      then show ?thesis by simp
    qed
  qed
qed

lemma str_includes_empty: "str_includes s []"
  by (induction s) simp_all

text \<open>
  C1. For every shop list and every search query, the filtered list holds exactly the
  shops of the list for which the lowercased query is a substring of the lowercased
  name, of the lowercased location, or of the lowercased name or category of one of
  the products; they keep their order.
\<close>

theorem filteredShops_exact:
  "filteredShops shop_list search = filter (shop_matches search) shop_list \<and>
   set (filteredShops shop_list search) = {s \<in> set shop_list. shop_matches search s}"
proof -
  have "filteredShops shop_list search = filter (shop_matches search) shop_list"
    unfolding filteredShops_def
    by (rule filter_cong) (simp_all add: shop_matches_def str_includes_iff list_ex_iff Let_def)
  then show ?thesis by simp
qed

text \<open>The query \<open>FLOW\<close> finds the shop that sells a product of the category Flowers.\<close>

theorem filteredShops_exact_witness:
  "filter (shop_matches ''FLOW'') [shopA, shopB] = [shopA]"
proof -
  have "filteredShops [shopA, shopB] ''FLOW'' = [shopA]" by code_simp
  then show ?thesis using filteredShops_exact [of "[shopA, shopB]" "''FLOW''"] by simp
qed

text \<open>
  C10. With the empty search query the filtered list is the fetched list itself, and
  with any query it is a subsequence of the fetched list.
\<close>

theorem filteredShops_empty_query:
  "filteredShops shop_list [] = shop_list \<and>
   subseq (filteredShops shop_list search) shop_list"
  by (simp add: filteredShops_def toLowerCase_def str_includes_empty)

theorem filteredShops_empty_query_witness:
  "filteredShops [shopA, shopB] [] = [shopA, shopB] \<and>
   subseq (filteredShops [shopA, shopB] ''FLOW'') [shopA, shopB]"
  using filteredShops_empty_query [of "[shopA, shopB]" "''FLOW''"] by simp

section \<open>The auth header\<close>

text \<open>
  C3, as amended. A request sent through the API client carries the header
  \<open>x-auth-token\<close> exactly when local storage holds a token that is not empty, and the
  header's value is then that token; the default \<open>Content-Type\<close> header is always there.
\<close>

theorem auth_header_when_token:
  "headers (send localStorage c) ''x-auth-token'' =
     (case localStorage ''token'' of
        None \<Rightarrow> None
      | Some tok \<Rightarrow> if tok = [] then None else Some tok) \<and>
   headers (send localStorage c) ''Content-Type'' = Some ''application/json''"
  by (cases c) (simp_all add: send_def interceptor_def api_config_def truthy_string_def
      split: option.splits)

theorem auth_header_when_token_witness:
  "headers (send [''token'' \<mapsto> ''abc''] GetMyShop) ''x-auth-token'' = Some ''abc'' \<and>
   headers (send [''token'' \<mapsto> ''''] GetMyShop) ''x-auth-token'' = None"
  using auth_header_when_token [of "[''token'' \<mapsto> ''abc'']" GetMyShop]
        auth_header_when_token [of "[''token'' \<mapsto> '''']" GetMyShop]
  by simp

text \<open>
  C3 as the specification states it fails: with nothing in local storage the request
  for the caller's shop leaves without the header.
\<close>

theorem auth_header_missing_counterexample:
  "headers (send Map.empty GetMyShop) ''x-auth-token'' = None"
  by (simp add: send_def interceptor_def api_config_def)

section \<open>The query of getShops\<close>

lemma getShops_location_param:
  "query_params (request_of (GetShops loc la lo)) ''location'' =
     (case loc of None \<Rightarrow> None | Some l \<Rightarrow> if l = [] then None else Some (PString l))"
  by (simp add: api_config_def getShops_params_def truthy_string_def Let_def
      split: option.splits)

lemma getShops_coordinates_param:
  "query_params (request_of (GetShops loc (Some la) (Some lo))) ''lat'' =
     (if truthy_number la \<and> truthy_number lo then Some (PNumber la) else None) \<and>
   query_params (request_of (GetShops loc (Some la) (Some lo))) ''lng'' =
     (if truthy_number la \<and> truthy_number lo then Some (PNumber lo) else None)"
  by (simp add: api_config_def getShops_params_def truthy_string_def Let_def
      split: option.splits)

text \<open>
  C4. The claim: the request carries \<open>location\<close> exactly when a non-empty location is
  given, and \<open>lat\<close> and \<open>lng\<close> whenever both coordinates are given. The second half fails
  on the equator: with latitude 0 and longitude 77.6 both given, the request carries no
  query parameter at all.
\<close>

theorem getShops_zero_latitude:
  "query_params (request_of (GetShops None (Some (Num 0)) (Some (Num 77.6)))) = Map.empty"
  by (simp add: api_config_def getShops_params_def)

section \<open>Redirect by role\<close>

text \<open>
  C5. When the signup (or the login) succeeds, the handler first hands the returned
  token and user to the auth context and then navigates exactly once: to \<open>/seller\<close> if
  and only if the user's userType is \<open>seller\<close>, and to \<open>/buyer\<close> otherwise. The Index
  view sends a logged-in visitor to the same route.
\<close>

theorem redirect_by_role:
  assumes "decode_response jwtDecode resp = Inr r"
  shows "\<exists>route.
           fst (signup_onSubmit jwtDecode resp sdata st) =
             [Api (Signup sdata), AuthLogin (token r) (auth_user r),
              ToastSuccess ''Account created successfully!'', Navigate route] \<and>
           login_onSubmit jwtDecode resp ldata =
             [Api (Login ldata), AuthLogin (token r) (auth_user r), Navigate route] \<and>
           index_effect \<lparr>isAuthenticated = True, current_user = Some (auth_user r)\<rparr> =
             [Navigate route] \<and>
           (route = ''/seller'' \<longleftrightarrow> userType (auth_user r) = ''seller'') \<and>
           (route = ''/buyer'' \<longleftrightarrow> userType (auth_user r) \<noteq> ''seller'')"
  using assms
  by (simp add: signup_onSubmit_def login_onSubmit_def index_effect_def dashboard_route_def)

theorem redirect_by_role_witness:
  "decode_response sample_jwtDecode (Inr ''tok-seller'') =
     Inr \<lparr>token = ''tok-seller'', auth_user = sellerU\<rparr> \<and>
   navigations (fst (signup_onSubmit sample_jwtDecode (Inr ''tok-seller'') sample_signup
                       \<lparr>signup_isLoading = True\<rparr>)) = [''/seller''] \<and>
   navigations (login_onSubmit sample_jwtDecode (Inr ''tok-seller'') sample_login) = [''/seller'']"
proof -
  have h: "decode_response sample_jwtDecode (Inr ''tok-seller'') =
             Inr \<lparr>token = ''tok-seller'', auth_user = sellerU\<rparr>"
    by (simp add: decode_response_def sample_jwtDecode_def)
  have s: "userType sellerU = ''seller''"
    by (simp add: sellerU_def)
  from redirect_by_role [OF h, of sample_signup "\<lparr>signup_isLoading = True\<rparr>" sample_login]
  obtain route where
    a: "fst (signup_onSubmit sample_jwtDecode (Inr ''tok-seller'') sample_signup
               \<lparr>signup_isLoading = True\<rparr>) =
          [Api (Signup sample_signup), AuthLogin ''tok-seller'' sellerU,
           ToastSuccess ''Account created successfully!'', Navigate route]" and
    b: "login_onSubmit sample_jwtDecode (Inr ''tok-seller'') sample_login =
          [Api (Login sample_login), AuthLogin ''tok-seller'' sellerU, Navigate route]" and
    c: "route = ''/seller'' \<longleftrightarrow> userType sellerU = ''seller''"
    by auto
  from c s have "route = ''/seller''" by simp
  with a b h show ?thesis by simp
qed

section \<open>Form validation\<close>

lemma positive_number_iff: "positive_number n \<longleftrightarrow> \<not> isNaN n \<and> \<not> js_le_zero n"
  by (cases n) (auto simp: positive_number_def)

lemma productSchema_issues_empty:
  "productSchema_issues Number path p = [] \<longleftrightarrow>
     pf_name p \<noteq> [] \<and> positive_number (Number (pf_price p)) \<and> pf_category p \<noteq> []"
  by (auto simp: productSchema_issues_def positive_number_iff Let_def)

lemma product_issues_concat_empty:
  "concat (map (\<lambda>(i, p). productSchema_issues Number [Key ''products'', Index i] p)
               (enumerate n ps)) = [] \<longleftrightarrow>
   (\<forall>p \<in> set ps. pf_name p \<noteq> [] \<and> positive_number (Number (pf_price p)) \<and> pf_category p \<noteq> [])"
  by (induction ps arbitrary: n) (simp_all add: productSchema_issues_empty)

lemma shopSchema_issues_empty:
  "shopSchema_issues Number f = [] \<longleftrightarrow> shop_form_valid Number f"
proof -
  have "length (f_products f) < 1 \<longleftrightarrow> f_products f = []"
    by (cases "f_products f") simp_all
  then show ?thesis
    unfolding shopSchema_issues_def shop_form_valid_def append_is_Nil_conv
      product_issues_concat_empty
    by (auto simp: not_less)
qed

lemma shopSchema_accepts: "(\<exists>d. shopSchema Number f = Inr d) \<longleftrightarrow> shop_form_valid Number f"
  unfolding shopSchema_issues_empty [symmetric]
  by (simp add: shopSchema_def split: list.splits)

lemma signupSchema_issues_empty:
  "signupSchema_issues isEmail f = [] \<longleftrightarrow> signup_form_valid isEmail f"
  by (auto simp: signupSchema_issues_def signup_form_valid_def not_less split: option.splits)

lemma signupSchema_accepts:
  "(\<exists>d. signupSchema isEmail f = Inr d) \<longleftrightarrow> signup_form_valid isEmail f"
proof
  assume "\<exists>d. signupSchema isEmail f = Inr d"
  then have "signupSchema_issues isEmail f = []"
    by (auto simp: signupSchema_def split: list.splits option.splits)
  then show "signup_form_valid isEmail f"
    by (simp add: signupSchema_issues_empty)
next
  assume v: "signup_form_valid isEmail f"
  then have "signupSchema_issues isEmail f = []"
    by (simp add: signupSchema_issues_empty)
  moreover from v obtain t where "sf_userType f = Some t"
    by (auto simp: signup_form_valid_def)
  ultimately show "\<exists>d. signupSchema isEmail f = Inr d"
    by (simp add: signupSchema_def)
qed

lemma calls_signup_submit:
  "http_calls (fst (signup_submit isEmail jwtDecode resp f st)) =
     (case signupSchema isEmail f of Inl issues \<Rightarrow> [] | Inr d \<Rightarrow> [Signup d])"
  by (simp add: signup_submit_def handleSubmit_def signup_onSubmit_def split: sum.splits)


text \<open>
  C6. The shop form's schema accepts an input exactly when the shop name has at least
  2 characters, the location has at least 2 characters, the products list is not empty
  and every product has a non-empty name, a positive numeric price and a non-empty
  category; when it rejects, submitting makes no HTTP call and leaves the view as it was.
\<close>

theorem shop_form_validation:
  "((\<exists>d. shopSchema Number f = Inr d) \<longleftrightarrow> shop_form_valid Number f) \<and>
   (\<not> shop_form_valid Number f \<longrightarrow>
      http_calls (fst (seller_submit Number resp f st)) = [] \<and>
      snd (seller_submit Number resp f st) = st)"
proof -
  have "http_calls (fst (seller_submit Number resp f st)) = [] \<and>
        snd (seller_submit Number resp f st) = st" if "\<not> shop_form_valid Number f"
  proof -
    from that have "shopSchema_issues Number f \<noteq> []"
      by (simp add: shopSchema_issues_empty)
    then obtain i rest where "shopSchema_issues Number f = i # rest"
      by (cases "shopSchema_issues Number f") simp_all
    then show ?thesis
      by (simp add: seller_submit_def handleSubmit_def shopSchema_def)
  qed
  then show ?thesis using shopSchema_accepts [of Number f] by blast
qed

text \<open>
  A filled form is accepted; the form with its default values (no names, price 0) is
  rejected and nothing is sent.
\<close>

theorem shop_form_validation_witness:
  "shop_form_valid sample_Number good_shop_form \<and>
   \<not> shop_form_valid sample_Number default_shop_form \<and>
   http_calls (fst (seller_submit sample_Number (Inr ()) default_shop_form
                      \<lparr>seller_isLoading = False\<rparr>)) = []"
proof -
  have g: "\<exists>d. shopSchema sample_Number good_shop_form = Inr d"
    by (simp add: shopSchema_def shopSchema_issues_def productSchema_issues_def
        good_shop_form_def sample_Number_def)
  have b: "shopSchema_issues sample_Number default_shop_form \<noteq> []"
    by (simp add: shopSchema_issues_def default_shop_form_def)
  then have "\<not> (\<exists>d. shopSchema sample_Number default_shop_form = Inr d)"
    by (auto simp: shopSchema_def split: list.splits)
  with g show ?thesis
    using shop_form_validation [of sample_Number good_shop_form "Inr ()" "\<lparr>seller_isLoading = False\<rparr>"]
          shop_form_validation [of sample_Number default_shop_form "Inr ()" "\<lparr>seller_isLoading = False\<rparr>"]
    by blast
qed

text \<open>
  C7. The signup form's schema accepts an input exactly when the name has at least 2
  characters, the email is a valid email address, the password has at least 6
  characters and the userType is buyer or seller; a signup request is sent only for an
  accepted input, with the data the schema returned.
\<close>

theorem signup_form_validation:
  "((\<exists>d. signupSchema isEmail f = Inr d) \<longleftrightarrow> signup_form_valid isEmail f) \<and>
   (\<forall>c. c \<in> set (http_calls (fst (signup_submit isEmail jwtDecode resp f st))) \<longrightarrow>
        signup_form_valid isEmail f \<and> (\<exists>d. signupSchema isEmail f = Inr d \<and> c = Signup d))"
proof -
  have "signup_form_valid isEmail f \<and> (\<exists>d. signupSchema isEmail f = Inr d \<and> c = Signup d)"
    if "c \<in> set (http_calls (fst (signup_submit isEmail jwtDecode resp f st)))" for c
  proof (cases "signupSchema isEmail f")
    case (Inl issues)
    with that show ?thesis by (simp add: calls_signup_submit)
  next
    case (Inr d)
    with that have "c = Signup d" by (simp add: calls_signup_submit)
    with Inr show ?thesis using signupSchema_accepts [of isEmail f] by auto
  qed
  then show ?thesis using signupSchema_accepts [of isEmail f] by blast
qed

theorem signup_form_validation_witness:
  "signup_form_valid sample_isEmail good_signup_form \<and>
   \<not> signup_form_valid sample_isEmail bad_signup_form \<and>
   http_calls (fst (signup_submit sample_isEmail sample_jwtDecode (Inr ''tok-buyer'')
                      bad_signup_form \<lparr>signup_isLoading = False\<rparr>)) = []"
proof -
  have g: "\<exists>d. signupSchema sample_isEmail good_signup_form = Inr d"
    by (simp add: signupSchema_def signupSchema_issues_def good_signup_form_def
        sample_isEmail_def)
  have b: "signupSchema_issues sample_isEmail bad_signup_form \<noteq> []"
    by (simp add: signupSchema_issues_def bad_signup_form_def)
  then have n: "\<not> (\<exists>d. signupSchema sample_isEmail bad_signup_form = Inr d)"
    by (auto simp: signupSchema_def split: list.splits option.splits)
  have v: "signup_form_valid sample_isEmail good_signup_form"
    using g signup_form_validation [of sample_isEmail good_signup_form] by blast
  have w: "\<not> signup_form_valid sample_isEmail bad_signup_form"
    using n signup_form_validation [of sample_isEmail bad_signup_form] by blast
  define calls where
    "calls = http_calls (fst (signup_submit sample_isEmail sample_jwtDecode (Inr ''tok-buyer'')
                               bad_signup_form \<lparr>signup_isLoading = False\<rparr>))"
  have "c \<notin> set calls" for c
    unfolding calls_def
    using w signup_form_validation [of sample_isEmail bad_signup_form sample_jwtDecode
        "Inr ''tok-buyer''" "\<lparr>signup_isLoading = False\<rparr>"]
    by blast
  then have "calls = []"
    by (cases calls) auto
  then have "http_calls (fst (signup_submit sample_isEmail sample_jwtDecode (Inr ''tok-buyer'')
                               bad_signup_form \<lparr>signup_isLoading = False\<rparr>)) = []"
    by (simp add: calls_def)
  with v w show ?thesis by simp
qed

section \<open>The HTTP calls of a handler\<close>

lemma http_calls_append: "http_calls (xs @ ys) = http_calls xs @ http_calls ys"
  by (induction xs rule: http_calls.induct) simp_all



















section \<open>Reviews\<close>

lemma stars_small:
  assumes "n \<in> set stars"
  shows "\<exists>k::int. 1 \<le> k \<and> k \<le> 5 \<and> n = Num (of_int k)"
proof -
  from assms consider "n = Num 1" | "n = Num 2" | "n = Num 3" | "n = Num 4" | "n = Num 5"
    by (auto simp: stars_def)
  then show ?thesis
  proof cases
    case 1
    then have "n = Num (of_int 1)" by simp
    then show ?thesis by (intro exI [of _ 1]) simp
  next
    case 2
    then have "n = Num (of_int 2)" by simp
    then show ?thesis by (intro exI [of _ 2]) simp
  next
    case 3
    then have "n = Num (of_int 3)" by simp
    then show ?thesis by (intro exI [of _ 3]) simp
  next
    case 4
    then have "n = Num (of_int 4)" by simp
    then show ?thesis by (intro exI [of _ 4]) simp
  next
    case 5
    then have "n = Num (of_int 5)" by simp
    then show ?thesis by (intro exI [of _ 5]) simp
  qed
qed

lemma five_in_stars: "Num 5 \<in> set stars"
  by (simp add: stars_def)

lemma handleSubmitReview_rating:
  assumes "rating st \<in> set stars"
  shows "rating (snd (handleSubmitReview a addResp getResp st)) \<in> set stars"
    and "\<forall>r \<in> set (submitted_reviews (fst (handleSubmitReview a addResp getResp st))).
           review_rating r = rating st"
  using assms five_in_stars
  by (auto simp: handleSubmitReview_def Let_def split: option.splits sum.splits)

lemma home_step_rating:
  assumes "rating st \<in> set stars"
  shows "rating (snd (home_step act st)) \<in> set stars"
    and "\<forall>r \<in> set (submitted_reviews (fst (home_step act st))). review_rating r \<in> set stars"
proof -
  show "rating (snd (home_step act st)) \<in> set stars"
  proof (cases act)
    case (SubmitReview a addResp getResp)
    then show ?thesis using handleSubmitReview_rating(1) [OF assms] by simp
  next
    case (ClickStar i)
    then show ?thesis using assms by simp
  next
    case (UseMyLocation geo resp)
    then show ?thesis using assms
      by (auto simp: handleUseMyLocation_def fetchNearbyShops_def split: option.splits sum.splits)
  qed (use assms in \<open>auto simp: fetchShops_def handleShopClick_def split: sum.splits\<close>)
  show "\<forall>r \<in> set (submitted_reviews (fst (home_step act st))). review_rating r \<in> set stars"
  proof (cases act)
    case (SubmitReview a addResp getResp)
    then show ?thesis using handleSubmitReview_rating(2) [OF assms] assms by simp
  next
    case (UseMyLocation geo resp)
    then show ?thesis
      by (auto simp: handleUseMyLocation_def fetchNearbyShops_def split: option.splits sum.splits)
  qed (auto simp: fetchShops_def handleShopClick_def handleLogout_def split: sum.splits)
qed

lemma submitted_reviews_append:
  "submitted_reviews (xs @ ys) = submitted_reviews xs @ submitted_reviews ys"
  by (induction xs rule: submitted_reviews.induct) simp_all

lemma home_run_rating:
  "rating st \<in> set stars \<Longrightarrow>
   \<forall>r \<in> set (submitted_reviews (fst (home_run acts st))). review_rating r \<in> set stars"
proof (induction acts arbitrary: st)
  case Nil
  then show ?case by simp
next
  case (Cons act acts)
  obtain evs st' where s: "home_step act st = (evs, st')"
    by (cases "home_step act st")
  obtain evs' st'' where r: "home_run acts st' = (evs', st'')"
    by (cases "home_run acts st'")
  from home_step_rating [OF Cons.prems, of act] s
  have a: "rating st' \<in> set stars"
    and b: "\<forall>r \<in> set (submitted_reviews evs). review_rating r \<in> set stars"
    by simp_all
  from Cons.IH [OF a] r
  have c: "\<forall>r \<in> set (submitted_reviews evs'). review_rating r \<in> set stars"
    by simp
  from s r b c show ?case
    by (auto simp: submitted_reviews_append)
qed

text \<open>
  C8. The rating starts at 5, and whatever the user does in Home, every review that is
  posted carries a rating that is an integer between 1 and 5.
\<close>

theorem submitted_rating_between_1_and_5:
  "rating home_initial = Num 5 \<and>
   (\<forall>r \<in> set (submitted_reviews (fst (home_run acts home_initial))).
      \<exists>k::int. 1 \<le> k \<and> k \<le> 5 \<and> review_rating r = Num (of_int k))"
proof -
  have i: "rating home_initial \<in> set stars"
    by (simp add: home_initial_def stars_def)
  show ?thesis
    using home_run_rating [OF i, of acts] stars_small
    by (auto simp: home_initial_def)
qed

text \<open>Open a shop, click the third star, type a review and submit it: the rating is 3.\<close>

theorem submitted_rating_witness:
  "map review_rating (submitted_reviews (fst (home_run sample_session home_initial))) = [Num 3] \<and>
   (\<exists>k::int. 1 \<le> k \<and> k \<le> 5 \<and> Num 3 = Num (of_int k))"
proof -
  have e: "map review_rating (submitted_reviews (fst (home_run sample_session home_initial)))
             = [Num 3]"
    by code_simp
  then have "Num 3 \<in> review_rating ` set (submitted_reviews (fst (home_run sample_session home_initial)))"
    by (metis list.set_intros(1) set_map)
  then show ?thesis
    using e submitted_rating_between_1_and_5 [of sample_session] by auto
qed

lemma selectedShop_after_click:
  "selectedShop (snd (home_step (ShopClick s resp) st)) = Some s"
  by (simp add: handleShopClick_def split: sum.splits)

lemma selectedShop_kept:
  "selectedShop st \<noteq> None \<Longrightarrow> selectedShop (snd (home_step act st)) \<noteq> None"
  by (cases act)
     (auto simp: fetchShops_def handleUseMyLocation_def fetchNearbyShops_def handleShopClick_def
        handleSubmitReview_def Let_def split: option.splits sum.splits)

text \<open>
  Whatever the session and the selection, a comment that is too short costs no request
  and changes nothing; the handler is silent only when the user is authenticated and
  no shop is selected or no user is present, which its guard before the length check
  decides.
\<close>

lemma short_review_no_effect:
  assumes "length (trim (reviewText st)) < 10"
  shows "http_calls (fst (handleSubmitReview a addResp getResp st)) = [] \<and>
         snd (handleSubmitReview a addResp getResp st) = st \<and>
         toast_errors (fst (handleSubmitReview a addResp getResp st)) =
           (if \<not> isAuthenticated a then [''Please login to submit a review'']
            else if selectedShop st = None \<or> current_user a = None then []
            else [''Review must be at least 10 characters long'']) \<and>
         navigations (fst (handleSubmitReview a addResp getResp st)) =
           (if \<not> isAuthenticated a then [''/login''] else [])"
  using assms by (auto simp: handleSubmitReview_def split: option.splits)

text \<open>
  C9. If the trimmed review comment is shorter than 10 characters, submitting the review
  form fails locally with the error message that the review must be at least 10
  characters long; no HTTP request is issued, and the state of Home, and with it the
  comment text and the rating, is left unchanged.
\<close>

theorem short_review_rejected:
  assumes "length (trim (reviewText st)) < 10" and "review_form_shown a st"
  shows "fst (handleSubmitReview a addResp getResp st) =
           [ToastError ''Review must be at least 10 characters long''] \<and>
         http_calls (fst (handleSubmitReview a addResp getResp st)) = [] \<and>
         snd (handleSubmitReview a addResp getResp st) = st \<and>
         reviewText (snd (handleSubmitReview a addResp getResp st)) = reviewText st \<and>
         rating (snd (handleSubmitReview a addResp getResp st)) = rating st"
  using assms
  by (auto simp: handleSubmitReview_def review_form_shown_def split: option.splits)

theorem short_review_rejected_witness:
  "length (trim (reviewText review_short)) = 7 \<and>
   review_form_shown buyer_session review_short \<and>
   fst (handleSubmitReview buyer_session (Inr ()) (Inr []) review_short) =
     [ToastError ''Review must be at least 10 characters long''] \<and>
   snd (handleSubmitReview buyer_session (Inr ()) (Inr []) review_short) = review_short"
proof -
  have l: "length (trim (reviewText review_short)) = 7"
    by code_simp
  then have h: "length (trim (reviewText review_short)) < 10"
    by simp
  have s: "review_form_shown buyer_session review_short"
    by (simp add: review_form_shown_def review_short_def buyer_session_def buyerU_def)
  from l s show ?thesis
    using short_review_rejected [OF h s, of "Inr ()" "Inr []"] by simp
qed

end
